theory Spec2Isabelle
  imports Main "HOL-Library.Word"
begin

section \<open>The external collaborators (consul's testutil and api packages)\<close>

text \<open>
  agentman drives consul test servers through two packages that are not part of the
  repository: \<^verbatim>\<open>testutil\<close> (the server process) and \<^verbatim>\<open>api\<close> (its client). Their types are
  kept as far as agentman.go reads them, and their functions are parameters of the model
  (the record \<open>env\<close>): every theorem holds for every behaviour of the two packages.
  Mutexes are left out: the model is the sequential behaviour of each method.
\<close>

type_synonym uint8 = "8 word"

text \<open>\<^verbatim>\<open>testutil.TestServerConfig\<close>, with the fields agentman.go writes.\<close>

record TestServerConfig =
  Bootstrap :: bool
  DisableCheckpoint :: bool
  RaftMultiplier :: int

text \<open>
  A callback receives a pointer to the configuration and writes to it; here it returns
  the configuration it leaves behind.
\<close>

type_synonym ServerConfigCallback = "TestServerConfig \<Rightarrow> TestServerConfig"

type_synonym ClusterServerConfigCallback =
  "string \<Rightarrow> uint8 \<Rightarrow> TestServerConfig \<Rightarrow> TestServerConfig"

datatype HTTPClient = HTTPClient nat

datatype Client = Client string

text \<open>\<^verbatim>\<open>testutil.TestServer\<close>, with the fields the accessors of TestInstance read.\<close>

record TestServer =
  HTTPAddr :: string
  HTTPSAddr :: string
  LANAddr :: string
  WANAddr :: string
  HTTPClient_of :: HTTPClient
  Config :: TestServerConfig

text \<open>
  Go's \<^verbatim>\<open>error\<close> values. \<open>External\<close> is an error of testutil or api. The errors
  agentman builds with \<^verbatim>\<open>errors.New\<close> and \<^verbatim>\<open>fmt.Errorf\<close> keep the arguments of their
  format string instead of the rendered text:
  \<^item> \<open>SizeAtLeast1\<close>: "size must be at least 1";
  \<^item> \<open>GrowCapacity name current n\<close>: "name is already current instances long, cannot
    grow by n as it would breach the max allowed cluster instance size of 255";
  \<^item> \<open>GrowCreateFailed name offset err\<close>: "unable to grow name, instance offset
    creation failed: err";
  \<^item> \<open>GrowJoinFailed name offset err\<close>: "unable to grow name, instance offset failed
    to join: err";
  \<^item> \<open>Multi errs\<close>: a \<^verbatim>\<open>*MultiErr\<close> returned as an error, with the errors it holds.
\<close>

datatype error =
    External string
  | SizeAtLeast1
  | GrowCapacity string nat uint8
  | GrowCreateFailed string uint8 error
  | GrowJoinFailed string uint8 error
  | Multi "error list"

text \<open>
  A panic ends the call. \<open>InstanceDefunct name\<close> is
  \<^verbatim>\<open>panic("Instance name is defunct")\<close>, \<open>ClusterDefunct name\<close> is
  \<^verbatim>\<open>panic("Cluster name is defunct")\<close>; the other two are Go's runtime panics for an
  index outside a slice (the index and the length) and for a nil pointer.
\<close>

datatype panic =
    InstanceDefunct string
  | ClusterDefunct string
  | IndexOutOfRange nat nat
  | NilDereference

text \<open>The calls into the two packages, in the order they were made.\<close>

datatype event =
    CallNewTestServerConfig ServerConfigCallback
  | CallNewClient string
  | CallJoin Client string bool
  | CallServerStop TestServer

text \<open>
  The behaviour of the two packages. Starting a server, binding a client and joining may
  depend on every call made before (the history). \<^verbatim>\<open>TestServer.Stop\<close> is called at most
  once for a server (\<^verbatim>\<open>TestInstance.Stop\<close> forgets the server it stopped), so its result
  is given per server.
\<close>

record env =
  NewTestServerConfig :: "event list \<Rightarrow> ServerConfigCallback \<Rightarrow> error + TestServer"
  NewClient :: "event list \<Rightarrow> string \<Rightarrow> error + Client"
  AgentJoin :: "event list \<Rightarrow> Client \<Rightarrow> string \<Rightarrow> bool \<Rightarrow> error option"
  ServerStop :: "TestServer \<Rightarrow> error option"

section \<open>The data model of agentman.go\<close>

text \<open>
  \<^verbatim>\<open>TestInstance\<close>: a nil \<open>server\<close> is \<open>None\<close>. Instances and clusters are reached through
  pointers, so they live in a store: a pointer is an index into \<open>heap\<close> (instances) or
  \<open>cheap\<close> (clusters), and an index outside the store stands for nil.
\<close>

record TestInstance =
  name :: string
  server :: "TestServer option"
  client :: "Client option"

record TestCluster =
  cl_name :: string
  cl_size :: uint8
  instances :: "nat list"
  stopped :: bool

record world =
  heap :: "TestInstance list"
  cheap :: "TestCluster list"
  trace :: "event list"

text \<open>multierr.go\<close>

record MultiErr =
  errs :: "error list"

definition NewMultiErr :: MultiErr where
  "NewMultiErr = \<lparr>errs = []\<rparr>"

definition MultiErr_Size :: "MultiErr \<Rightarrow> nat" where
  "MultiErr_Size e = length (errs e)"

definition MultiErr_Add :: "MultiErr \<Rightarrow> error option \<Rightarrow> MultiErr" where
  "MultiErr_Add e err = (case err of None \<Rightarrow> e | Some x \<Rightarrow> e\<lparr>errs := errs e @ [x]\<rparr>)"

text \<open>The result of a method that ends with \<^verbatim>\<open>if err.Size() > 0 { return err }; return nil\<close>.\<close>

definition MultiErr_result :: "MultiErr \<Rightarrow> error option" where
  "MultiErr_result e = (if MultiErr_Size e > 0 then Some (Multi (errs e)) else None)"

section \<open>TestInstance\<close>

definition NewTestInstance ::
  "env \<Rightarrow> string \<Rightarrow> ServerConfigCallback \<Rightarrow> world \<Rightarrow> (error + nat) \<times> world" where
  "NewTestInstance e nm cb w =
     (let w1 = w\<lparr>trace := trace w @ [CallNewTestServerConfig cb]\<rparr> in
      case NewTestServerConfig e (trace w) cb of
        Inl err \<Rightarrow> (Inl err, w1)
      | Inr srv \<Rightarrow>
          (let w2 = w1\<lparr>trace := trace w1 @ [CallNewClient (HTTPAddr srv)]\<rparr> in
           case NewClient e (trace w1) (HTTPAddr srv) of
             Inl err \<Rightarrow> (Inl err, w2\<lparr>trace := trace w2 @ [CallServerStop srv]\<rparr>)
           | Inr c \<Rightarrow>
               (Inr (length (heap w2)),
                w2\<lparr>heap := heap w2 @ [\<lparr>name = nm, server = Some srv, client = Some c\<rparr>]\<rparr>)))"

text \<open>
  The seven accessors share one shape: panic on a defunct instance, else read a field.
  \<open>with_server\<close> is that shape.
\<close>

definition with_server :: "nat \<Rightarrow> world \<Rightarrow> (TestInstance \<Rightarrow> TestServer \<Rightarrow> 'a) \<Rightarrow> panic + 'a" where
  "with_server ti w f =
     (if ti < length (heap w) then
        (case server (heap w ! ti) of
           None \<Rightarrow> Inl (InstanceDefunct (name (heap w ! ti)))
         | Some srv \<Rightarrow> Inr (f (heap w ! ti) srv))
      else Inl NilDereference)"

definition TestInstance_HTTPAddr :: "nat \<Rightarrow> world \<Rightarrow> panic + string" where
  "TestInstance_HTTPAddr ti w = with_server ti w (\<lambda>i srv. HTTPAddr srv)"

definition TestInstance_HTTPSAddr :: "nat \<Rightarrow> world \<Rightarrow> panic + string" where
  "TestInstance_HTTPSAddr ti w = with_server ti w (\<lambda>i srv. HTTPSAddr srv)"

definition TestInstance_LANAddr :: "nat \<Rightarrow> world \<Rightarrow> panic + string" where
  "TestInstance_LANAddr ti w = with_server ti w (\<lambda>i srv. LANAddr srv)"

definition TestInstance_WANAddr :: "nat \<Rightarrow> world \<Rightarrow> panic + string" where
  "TestInstance_WANAddr ti w = with_server ti w (\<lambda>i srv. WANAddr srv)"

definition TestInstance_HTTPClient :: "nat \<Rightarrow> world \<Rightarrow> panic + HTTPClient" where
  "TestInstance_HTTPClient ti w = with_server ti w (\<lambda>i srv. HTTPClient_of srv)"

definition TestInstance_APIClient :: "nat \<Rightarrow> world \<Rightarrow> panic + Client option" where
  "TestInstance_APIClient ti w = with_server ti w (\<lambda>i srv. client i)"

definition TestInstance_Config :: "nat \<Rightarrow> world \<Rightarrow> panic + TestServerConfig" where
  "TestInstance_Config ti w = with_server ti w (\<lambda>i srv. Config srv)"

definition TestInstance_Stop :: "env \<Rightarrow> nat \<Rightarrow> world \<Rightarrow> panic + (error option \<times> world)" where
  "TestInstance_Stop e ti w =
     (if ti < length (heap w) then
        (case server (heap w ! ti) of
           None \<Rightarrow> Inr (None, w)
         | Some srv \<Rightarrow>
             Inr (ServerStop e srv,
                  w\<lparr>trace := trace w @ [CallServerStop srv],
                    heap := (heap w)[ti := (heap w ! ti)\<lparr>server := None, client := None\<rparr>]\<rparr>))
      else Inl NilDereference)"

definition TestInstance_Stopped :: "nat \<Rightarrow> world \<Rightarrow> panic + bool" where
  "TestInstance_Stopped ti w =
     (if ti < length (heap w) then Inr (server (heap w ! ti) = None) else Inl NilDereference)"

section \<open>TestCluster\<close>

text \<open>\<^verbatim>\<open>fmt.Sprintf("%d", n)\<close> and \<^verbatim>\<open>fmt.Sprintf("%s-%d", name, num)\<close>.\<close>

fun Sprintf_d :: "nat \<Rightarrow> string" where
  "Sprintf_d n =
     (if n < 10 then [''0123456789'' ! n]
      else Sprintf_d (n div 10) @ [''0123456789'' ! (n mod 10)])"

definition Sprintf_s_d :: "string \<Rightarrow> uint8 \<Rightarrow> string" where
  "Sprintf_s_d nm num = nm @ ''-'' @ Sprintf_d (unat num)"

definition DefaultClusterServerConfigCallback :: ClusterServerConfigCallback where
  "DefaultClusterServerConfigCallback nm num conf =
     conf\<lparr>RaftMultiplier := 1, DisableCheckpoint := False,
          Bootstrap := (if num = 0 then True else False)\<rparr>"

definition TestCluster_Size :: "TestCluster \<Rightarrow> nat" where
  "TestCluster_Size cl = length (instances cl)"

definition TestCluster_Stopped :: "TestCluster \<Rightarrow> bool" where
  "TestCluster_Stopped cl = stopped cl"

text \<open>
  The loop of \<^verbatim>\<open>stop\<close>, \<^verbatim>\<open>for i := l - 1; i >= 0; i--\<close>: the counter of the model is
  \<open>i + 1\<close>, so \<open>Suc i\<close> is an iteration at index \<open>i\<close> and \<open>0\<close> is the exit.
\<close>

fun stop_loop :: "env \<Rightarrow> nat list \<Rightarrow> nat \<Rightarrow> MultiErr \<Rightarrow> world \<Rightarrow> panic + (MultiErr \<times> world)" where
  "stop_loop e xs 0 err w = Inr (err, w)"
| "stop_loop e xs (Suc i) err w =
     (case TestInstance_Stop e (xs ! i) w of
        Inl p \<Rightarrow> Inl p
      | Inr (r, w') \<Rightarrow> stop_loop e xs i (MultiErr_Add err r) w')"

definition TestCluster_stop ::
  "env \<Rightarrow> TestCluster \<Rightarrow> world \<Rightarrow> panic + (error option \<times> TestCluster \<times> world)" where
  "TestCluster_stop e cl w =
     (let l = length (instances cl) in
      if l = 0 then Inr (None, cl, w)
      else
        (case stop_loop e (instances cl) l NewMultiErr w of
           Inl p \<Rightarrow> Inl p
         | Inr (err, w') \<Rightarrow> Inr (MultiErr_result err, cl\<lparr>stopped := True\<rparr>, w')))"

definition TestCluster_Stop ::
  "env \<Rightarrow> TestCluster \<Rightarrow> world \<Rightarrow> panic + (error option \<times> TestCluster \<times> world)" where
  "TestCluster_Stop e cl w = (if stopped cl then Inr (None, cl, w) else TestCluster_stop e cl w)"

text \<open>\<^verbatim>\<open>cl.instances[num]\<close>: Go checks the index against the length of the slice.\<close>

definition TestCluster_Instance :: "TestCluster \<Rightarrow> uint8 \<Rightarrow> panic + nat" where
  "TestCluster_Instance cl num =
     (if stopped cl then Inl (ClusterDefunct (cl_name cl))
      else if unat num < length (instances cl) then Inr (instances cl ! unat num)
      else Inl (IndexOutOfRange (unat num) (length (instances cl))))"

text \<open>
  The loop of \<^verbatim>\<open>Grow\<close>, \<^verbatim>\<open>for i := uint8(0); i < n; i++\<close>. In
  \<^verbatim>\<open>cl.instances[0].APIClient().Agent().Join(instance.LANAddr(), false)\<close> Go indexes the
  slice, calls \<^verbatim>\<open>APIClient\<close>, then \<^verbatim>\<open>LANAddr\<close>, then \<^verbatim>\<open>Join\<close>; a nil client fails
  inside \<^verbatim>\<open>Join\<close>. The callback is not nil (\<^verbatim>\<open>NewTestCluster\<close> replaces a nil one).
\<close>

function grow_loop ::
  "env \<Rightarrow> ClusterServerConfigCallback \<Rightarrow> nat \<Rightarrow> uint8 \<Rightarrow> uint8 \<Rightarrow> TestCluster \<Rightarrow> world
   \<Rightarrow> panic + (error option \<times> TestCluster \<times> world)" where
  "grow_loop e cb current n i cl w =
     (if i < n then
        (let offset = of_nat current + i in
         case NewTestInstance e (Sprintf_s_d (cl_name cl) offset) (cb (cl_name cl) offset) w of
           (Inl err, w1) \<Rightarrow> Inr (Some (GrowCreateFailed (cl_name cl) offset err), cl, w1)
         | (Inr instance, w1) \<Rightarrow>
             (case instances cl of
                [] \<Rightarrow> Inl (IndexOutOfRange 0 0)
              | i0 # rest \<Rightarrow>
                  (case TestInstance_APIClient i0 w1 of
                     Inl p \<Rightarrow> Inl p
                   | Inr c \<Rightarrow>
                       (case TestInstance_LANAddr instance w1 of
                          Inl p \<Rightarrow> Inl p
                        | Inr lan \<Rightarrow>
                            (case c of
                               None \<Rightarrow> Inl NilDereference
                             | Some c' \<Rightarrow>
                                 (let w2 = w1\<lparr>trace := trace w1 @ [CallJoin c' lan False]\<rparr> in
                                  case AgentJoin e (trace w1) c' lan False of
                                    Some err \<Rightarrow>
                                      (case TestInstance_Stop e instance w2 of
                                         Inl p \<Rightarrow> Inl p
                                       | Inr (r, w3) \<Rightarrow>
                                           Inr (Some (GrowJoinFailed (cl_name cl) offset err), cl, w3))
                                  | None \<Rightarrow>
                                      grow_loop e cb current n (i + 1)
                                        (cl\<lparr>instances := instances cl @ [instance]\<rparr>) w2))))))
      else Inr (None, cl, w))"
  by pat_completeness auto
termination
  apply (relation "measure (\<lambda>(e, cb, current, n, i, cl, w). unat n - unat i)")
   apply simp
  apply clarsimp
  apply unat_arith
  done

definition TestCluster_Grow ::
  "env \<Rightarrow> uint8 \<Rightarrow> ClusterServerConfigCallback \<Rightarrow> TestCluster \<Rightarrow> world
   \<Rightarrow> panic + (error option \<times> TestCluster \<times> world)" where
  "TestCluster_Grow e n cb cl w =
     (if stopped cl then Inl (ClusterDefunct (cl_name cl))
      else
        (let current = length (instances cl) in
         if current + unat n > 255 then Inr (Some (GrowCapacity (cl_name cl) current n), cl, w)
         else grow_loop e cb current n 0 cl w))"

text \<open>
  The loop of \<^verbatim>\<open>Shrink\<close>, \<^verbatim>\<open>for i := uint8(l - 1); i > diff; i--\<close>, with Go's check of
  the index in \<^verbatim>\<open>cl.instances[i]\<close>.
\<close>

function shrink_loop ::
  "env \<Rightarrow> nat list \<Rightarrow> uint8 \<Rightarrow> uint8 \<Rightarrow> MultiErr \<Rightarrow> world \<Rightarrow> panic + (MultiErr \<times> world)" where
  "shrink_loop e xs diff i err w =
     (if i > diff then
        (if unat i < length xs then
           (case TestInstance_Stop e (xs ! unat i) w of
              Inl p \<Rightarrow> Inl p
            | Inr (r, w') \<Rightarrow> shrink_loop e xs diff (i - 1) (MultiErr_Add err r) w')
         else Inl (IndexOutOfRange (unat i) (length xs)))
      else Inr (err, w))"
  by pat_completeness auto
termination
  apply (relation "measure (\<lambda>(e, xs, diff, i, err, w). unat i)")
   apply simp
  apply clarsimp
  apply unat_arith
  done

text \<open>
  \<^verbatim>\<open>uint8(l)\<close> and \<^verbatim>\<open>uint8(l - 1)\<close> convert an \<^verbatim>\<open>int\<close> and wrap around. The slice
  \<^verbatim>\<open>cl.instances[0:diff]\<close> keeps the first \<open>diff\<close> members (\<open>diff\<close> is at most the length
  here).
\<close>

definition TestCluster_Shrink ::
  "env \<Rightarrow> uint8 \<Rightarrow> TestCluster \<Rightarrow> world \<Rightarrow> panic + (error option \<times> TestCluster \<times> world)" where
  "TestCluster_Shrink e n cl w =
     (let l = length (instances cl) in
      if n > word_of_int (int l) then TestCluster_stop e cl w
      else
        (let diff = word_of_int (int l) - n in
         case shrink_loop e (instances cl) diff (word_of_int (int l - 1)) NewMultiErr w of
           Inl p \<Rightarrow> Inl p
         | Inr (err, w') \<Rightarrow>
             Inr (MultiErr_result err, cl\<lparr>instances := take (unat diff) (instances cl)\<rparr>, w')))"

text \<open>
  The loop of \<^verbatim>\<open>NewTestCluster\<close> that stops what was created when \<^verbatim>\<open>Grow\<close> failed,
  \<^verbatim>\<open>for u := ul - 1; u >= 0; u--\<close>; the results of the stops are dropped. The counter
  of the model is \<open>u + 1\<close>.
\<close>

fun stop_created :: "env \<Rightarrow> nat list \<Rightarrow> nat \<Rightarrow> world \<Rightarrow> panic + world" where
  "stop_created e xs 0 w = Inr w"
| "stop_created e xs (Suc u) w =
     (case TestInstance_Stop e (xs ! u) w of
        Inl p \<Rightarrow> Inl p
      | Inr (r, w') \<Rightarrow> stop_created e xs u w')"

text \<open>
  \<^verbatim>\<open>make([]*TestInstance, 1, math.MaxUint8)\<close> is a slice of length 1; its only element is
  the instance created first. A nil callback is \<open>None\<close>.
\<close>

definition NewTestCluster ::
  "env \<Rightarrow> string \<Rightarrow> uint8 \<Rightarrow> ClusterServerConfigCallback option \<Rightarrow> world
   \<Rightarrow> panic + ((error + TestCluster) \<times> world)" where
  "NewTestCluster e nm sz cb w =
     (if sz = 0 then Inr (Inl SizeAtLeast1, w)
      else
        (let cb' = (case cb of None \<Rightarrow> DefaultClusterServerConfigCallback | Some f \<Rightarrow> f) in
         case NewTestInstance e (Sprintf_s_d nm 0) (cb' nm 0) w of
           (Inl err, w1) \<Rightarrow> Inr (Inl err, w1)
         | (Inr i0, w1) \<Rightarrow>
             (let cl = \<lparr>cl_name = nm, cl_size = sz, instances = [i0], stopped = False\<rparr> in
              if sz = 1 then Inr (Inr cl, w1)
              else
                (case TestCluster_Grow e (sz - 1) cb' cl w1 of
                   Inl p \<Rightarrow> Inl p
                 | Inr (None, cl', w2) \<Rightarrow> Inr (Inr cl', w2)
                 | Inr (Some err, cl', w2) \<Rightarrow>
                     (case stop_created e (instances cl') (length (instances cl')) w2 of
                        Inl p \<Rightarrow> Inl p
                      | Inr w3 \<Rightarrow> Inr (Inl err, w3))))))"

section \<open>AgentMan\<close>









section \<open>Well-formed stores\<close>

text \<open>No member of the cluster is a nil pointer.\<close>

definition members_valid :: "TestCluster \<Rightarrow> world \<Rightarrow> bool" where
  "members_valid cl w = list_all (\<lambda>ti. ti < length (heap w)) (instances cl)"

text \<open>
  \<open>only_stops w w'\<close>: the store \<open>w'\<close> has the instances of \<open>w\<close>, under the same
  names, each of them as it was or without its server; the clusters in the store are
  untouched.
\<close>

definition only_stops :: "world \<Rightarrow> world \<Rightarrow> bool" where
  "only_stops w w' =
     (length (heap w') = length (heap w) \<and> cheap w' = cheap w \<and>
      (\<forall>ti < length (heap w).
         name (heap w' ! ti) = name (heap w ! ti) \<and>
         (server (heap w' ! ti) = None \<or> heap w' ! ti = heap w ! ti)))"





section \<open>A concrete environment\<close>

text \<open>
  An environment to run the model in: every server starts and gets the addresses of its
  number (the servers started before it), every client binds, a join fails for the LAN
  addresses listed in \<open>bad_join\<close>, and stopping a server fails for the LAN addresses
  listed in \<open>bad_stop\<close>.
\<close>

fun is_start :: "event \<Rightarrow> bool" where
  "is_start (CallNewTestServerConfig cb) = True"
| "is_start ev = False"

definition demo_server :: "nat \<Rightarrow> ServerConfigCallback \<Rightarrow> TestServer" where
  "demo_server k cb =
     \<lparr>HTTPAddr = ''http:'' @ Sprintf_d k, HTTPSAddr = ''https:'' @ Sprintf_d k,
      LANAddr = ''lan:'' @ Sprintf_d k, WANAddr = ''wan:'' @ Sprintf_d k,
      HTTPClient_of = HTTPClient k,
      Config = cb \<lparr>Bootstrap = False, DisableCheckpoint = True, RaftMultiplier = 5\<rparr>\<rparr>"

definition demo_env :: "string list \<Rightarrow> string list \<Rightarrow> env" where
  "demo_env bad_join bad_stop =
     \<lparr>NewTestServerConfig = (\<lambda>h cb. Inr (demo_server (length (filter is_start h)) cb)),
      NewClient = (\<lambda>h a. Inr (Client a)),
      AgentJoin = (\<lambda>h c lan wan.
        if lan \<in> set bad_join then Some (External ''join refused'') else None),
      ServerStop = (\<lambda>srv.
        if LANAddr srv \<in> set bad_stop then Some (External ''exit status 1'') else None)\<rparr>"

definition empty_world :: world where
  "empty_world = \<lparr>heap = [], cheap = [], trace = []\<rparr>"

text \<open>
  The cluster and the store that \<^verbatim>\<open>NewTestCluster("c", k, nil)\<close> leaves in that
  environment, started from the empty store.
\<close>

definition demo_created :: "string list \<Rightarrow> uint8 \<Rightarrow> TestCluster \<times> world" where
  "demo_created bad_stop k =
     (case NewTestCluster (demo_env [] bad_stop) ''c'' k None empty_world of
        Inr (Inr cl, w) \<Rightarrow> (cl, w)
      | other \<Rightarrow> (\<lparr>cl_name = ''c'', cl_size = k, instances = [], stopped = True\<rparr>, empty_world))"

text \<open>
  That cluster and store written out, for the nodes \<open>js\<close>: node \<open>j\<close> is named \<open>c-j\<close> and runs server
  \<open>j\<close>, and the trace holds the start and the client of every node and the join of
  every node but the first.
\<close>

definition demo_instance :: "nat \<Rightarrow> TestInstance" where
  "demo_instance j =
     \<lparr>name = ''c-'' @ Sprintf_d j,
      server = Some (demo_server j (DefaultClusterServerConfigCallback ''c'' (of_nat j))),
      client = Some (Client (''http:'' @ Sprintf_d j))\<rparr>"

definition demo_calls :: "nat \<Rightarrow> event list" where
  "demo_calls j =
     [CallNewTestServerConfig (DefaultClusterServerConfigCallback ''c'' (of_nat j)),
      CallNewClient (''http:'' @ Sprintf_d j)] @
     (if j = 0 then [] else [CallJoin (Client ''http:0'') (''lan:'' @ Sprintf_d j) False])"

definition demo_cluster :: "nat list \<Rightarrow> TestCluster" where
  "demo_cluster js =
     \<lparr>cl_name = ''c'', cl_size = of_nat (length js), instances = js, stopped = False\<rparr>"

definition demo_world :: "nat list \<Rightarrow> world" where
  "demo_world js =
     \<lparr>heap = map demo_instance js, cheap = [], trace = concat (map demo_calls js)\<rparr>"

text \<open>The same cluster after \<^verbatim>\<open>Stop()\<close>, and after \<^verbatim>\<open>Shrink(n)\<close>.\<close>

definition demo_stopped :: "string list \<Rightarrow> uint8 \<Rightarrow> TestCluster \<times> world" where
  "demo_stopped bad_stop k =
     (case TestCluster_Stop (demo_env [] bad_stop) (fst (demo_created bad_stop k))
             (snd (demo_created bad_stop k)) of
        Inr (r, cl, w) \<Rightarrow> (cl, w)
      | Inl p \<Rightarrow> demo_created bad_stop k)"

definition demo_shrunk :: "string list \<Rightarrow> uint8 \<Rightarrow> uint8 \<Rightarrow> TestCluster \<times> world" where
  "demo_shrunk bad_stop k n =
     (case TestCluster_Shrink (demo_env [] bad_stop) n (fst (demo_created bad_stop k))
             (snd (demo_created bad_stop k)) of
        Inr (r, cl, w) \<Rightarrow> (cl, w)
      | Inl p \<Rightarrow> demo_created bad_stop k)"

text \<open>The cluster of \<open>demo_created\<close> after \<^verbatim>\<open>Grow(n, DefaultClusterServerConfigCallback)\<close>.\<close>

definition demo_grown :: "string list \<Rightarrow> uint8 \<Rightarrow> uint8 \<Rightarrow> TestCluster \<times> world" where
  "demo_grown bad_join k n =
     (case TestCluster_Grow (demo_env bad_join []) n DefaultClusterServerConfigCallback
             (fst (demo_created [] k)) (snd (demo_created [] k)) of
        Inr (r, cl, w) \<Rightarrow> (cl, w)
      | Inl p \<Rightarrow> demo_created [] k)"



section \<open>Evaluation\<close>

text \<open>
  The equations of the two loops over machine integers are unfolded by hand in the
  proofs; a run on a concrete store unfolds them through \<open>model_defs\<close>.
\<close>

declare grow_loop.simps [simp del] shrink_loop.simps [simp del]

lemmas demo_defs =
  demo_env_def demo_server_def empty_world_def demo_stopped_def demo_shrunk_def
  demo_instance_def demo_calls_def demo_cluster_def demo_world_def

lemmas model_defs =
  NewMultiErr_def MultiErr_Size_def MultiErr_Add_def MultiErr_result_def
  NewTestInstance_def with_server_def TestInstance_HTTPAddr_def TestInstance_HTTPSAddr_def
  TestInstance_LANAddr_def TestInstance_WANAddr_def TestInstance_HTTPClient_def
  TestInstance_APIClient_def TestInstance_Config_def TestInstance_Stop_def
  TestInstance_Stopped_def Sprintf_s_d_def DefaultClusterServerConfigCallback_def
  TestCluster_Size_def TestCluster_Stopped_def TestCluster_stop_def TestCluster_Stop_def
  TestCluster_Instance_def TestCluster_Grow_def TestCluster_Shrink_def NewTestCluster_def
  grow_loop.simps shrink_loop.simps

lemma demo_created_1: "demo_created bad_stop 1 = (demo_cluster [0], demo_world [0])"
  by (simp add: demo_created_def demo_defs model_defs)

lemma demo_created_2: "demo_created bad_stop 2 = (demo_cluster [0, 1], demo_world [0, 1])"
  by (simp add: demo_created_def demo_defs model_defs)

lemma demo_created_3: "demo_created bad_stop 3 = (demo_cluster [0, 1, 2], demo_world [0, 1, 2])"
  by (simp add: demo_created_def demo_defs model_defs)

lemmas demo_run = demo_created_1 demo_created_2 demo_created_3 demo_defs

section \<open>TestInstance: stopping, and the accessors of a stopped instance\<close>

text \<open>
  C7. \<^verbatim>\<open>TestInstance.Stop\<close> on a handle that is not nil: on a defunct handle it returns
  nil and changes nothing (no call to the server); on a live handle it returns what the
  one call to \<^verbatim>\<open>server.Stop()\<close> returned, error or not, and clears server and client; in
  every case it returns, \<^verbatim>\<open>Stopped()\<close> is true afterwards and a second \<^verbatim>\<open>Stop()\<close> returns
  nil and changes nothing.
\<close>

theorem TestInstance_Stop_once:
  assumes "ti < length (heap w)"
  shows "(TestInstance_Stopped ti w = Inr True \<longrightarrow> TestInstance_Stop e ti w = Inr (None, w)) \<and>
         (TestInstance_Stopped ti w = Inr False \<longrightarrow>
            (\<exists>srv w'. server (heap w ! ti) = Some srv \<and>
               TestInstance_Stop e ti w = Inr (ServerStop e srv, w') \<and>
               trace w' = trace w @ [CallServerStop srv] \<and>
               heap w' = (heap w)[ti := (heap w ! ti)\<lparr>server := None, client := None\<rparr>] \<and>
               cheap w' = cheap w)) \<and>
         (\<forall>r w'. TestInstance_Stop e ti w = Inr (r, w') \<longrightarrow>
            TestInstance_Stopped ti w' = Inr True \<and> TestInstance_Stop e ti w' = Inr (None, w')) \<and>
         (\<exists>r w'. TestInstance_Stop e ti w = Inr (r, w'))"
  using assms
  by (auto simp: TestInstance_Stop_def TestInstance_Stopped_def split: option.splits)

text \<open>
  The instance of a one-node cluster whose server fails to stop: \<^verbatim>\<open>Stop()\<close> returns
  that error, and the handle is defunct all the same.
\<close>

theorem TestInstance_Stop_once_witness:
  "0 < length (heap (snd (demo_created [''lan:0''] 1))) \<and>
   TestInstance_Stopped 0 (snd (demo_created [''lan:0''] 1)) = Inr False \<and>
   (\<exists>w'. TestInstance_Stop (demo_env [] [''lan:0'']) 0 (snd (demo_created [''lan:0''] 1))
            = Inr (Some (External ''exit status 1''), w') \<and>
          TestInstance_Stopped 0 w' = Inr True \<and>
          TestInstance_Stop (demo_env [] [''lan:0'']) 0 w' = Inr (None, w'))"
proof -
  have h: "0 < length (heap (snd (demo_created [''lan:0''] 1)))"
    by (simp add: demo_run model_defs)
  have live: "TestInstance_Stopped 0 (snd (demo_created [''lan:0''] 1)) = Inr False"
    by (simp add: demo_run model_defs)
  have srv: "server (heap (snd (demo_created [''lan:0''] 1)) ! 0)
               = Some (demo_server 0 (DefaultClusterServerConfigCallback ''c'' 0))"
    by (simp add: demo_run model_defs)
  have err: "ServerStop (demo_env [] [''lan:0''])
               (demo_server 0 (DefaultClusterServerConfigCallback ''c'' 0))
               = Some (External ''exit status 1'')"
    by (simp add: demo_run)
  from TestInstance_Stop_once [OF h, of "demo_env [] [''lan:0'']"] live srv err h
  show ?thesis by auto
qed

text \<open>
  C9. On an instance that has been stopped (\<^verbatim>\<open>Stopped()\<close> is true, as it is after
  \<^verbatim>\<open>Stop()\<close>), each of the seven accessors panics with "Instance name is defunct"; on a
  cluster whose \<^verbatim>\<open>Stopped()\<close> is true, \<^verbatim>\<open>Instance(num)\<close> panics with "Cluster name is
  defunct" for every \<open>num\<close>.
\<close>

theorem defunct_accessors_panic:
  "(TestInstance_Stopped ti w = Inr True \<longrightarrow>
      TestInstance_HTTPAddr ti w = Inl (InstanceDefunct (name (heap w ! ti))) \<and>
      TestInstance_HTTPSAddr ti w = Inl (InstanceDefunct (name (heap w ! ti))) \<and>
      TestInstance_LANAddr ti w = Inl (InstanceDefunct (name (heap w ! ti))) \<and>
      TestInstance_WANAddr ti w = Inl (InstanceDefunct (name (heap w ! ti))) \<and>
      TestInstance_HTTPClient ti w = Inl (InstanceDefunct (name (heap w ! ti))) \<and>
      TestInstance_APIClient ti w = Inl (InstanceDefunct (name (heap w ! ti))) \<and>
      TestInstance_Config ti w = Inl (InstanceDefunct (name (heap w ! ti)))) \<and>
   (TestCluster_Stopped cl \<longrightarrow>
      (\<forall>num. TestCluster_Instance cl num = Inl (ClusterDefunct (cl_name cl))))"
proof -
  have d: "TestInstance_Stopped ti w = Inr True \<Longrightarrow>
             ti < length (heap w) \<and> server (heap w ! ti) = None"
    by (auto simp: TestInstance_Stopped_def split: if_splits)
  have c: "TestCluster_Stopped cl \<Longrightarrow>
             TestCluster_Instance cl num = Inl (ClusterDefunct (cl_name cl))" for num
    by (simp add: TestCluster_Stopped_def TestCluster_Instance_def)
  show ?thesis
    using d c
    by (simp add: with_server_def TestInstance_HTTPAddr_def TestInstance_HTTPSAddr_def
        TestInstance_LANAddr_def TestInstance_WANAddr_def TestInstance_HTTPClient_def
        TestInstance_APIClient_def TestInstance_Config_def)
qed

text \<open>The two-node cluster after \<^verbatim>\<open>Stop()\<close>, and its second member.\<close>

theorem defunct_accessors_panic_witness:
  "TestInstance_Stopped 1 (snd (demo_stopped [] 2)) = Inr True \<and>
   TestInstance_HTTPAddr 1 (snd (demo_stopped [] 2)) = Inl (InstanceDefunct ''c-1'') \<and>
   TestInstance_APIClient 1 (snd (demo_stopped [] 2)) = Inl (InstanceDefunct ''c-1'') \<and>
   TestInstance_Config 1 (snd (demo_stopped [] 2)) = Inl (InstanceDefunct ''c-1'') \<and>
   TestCluster_Stopped (fst (demo_stopped [] 2)) \<and>
   TestCluster_Instance (fst (demo_stopped [] 2)) 0 = Inl (ClusterDefunct ''c'')"
proof -
  have h1: "TestInstance_Stopped 1 (snd (demo_stopped [] 2)) = Inr True"
    by (simp add: demo_run model_defs)
  have h2: "TestCluster_Stopped (fst (demo_stopped [] 2))"
    by (simp add: demo_run model_defs)
  have n: "name (heap (snd (demo_stopped [] 2)) ! 1) = ''c-1''"
    by (simp add: demo_run model_defs)
  have m: "cl_name (fst (demo_stopped [] 2)) = ''c''"
    by (simp add: demo_run model_defs)
  from defunct_accessors_panic [of 1 "snd (demo_stopped [] 2)" "fst (demo_stopped [] 2)"]
    h1 h2 n m
  show ?thesis by simp
qed

text \<open>
  C10. On a cluster that is not stopped, \<^verbatim>\<open>Instance(num)\<close> is the plain index
  expression \<^verbatim>\<open>cl.instances[num]\<close>: the member at \<open>num\<close> when \<open>num < Size()\<close>, and Go's
  index-out-of-range panic for every \<open>num \<ge> Size()\<close>; no error value is returned.
\<close>

theorem Instance_unguarded_index:
  assumes "\<not> TestCluster_Stopped cl"
  shows "(unat num < TestCluster_Size cl \<longrightarrow>
            TestCluster_Instance cl num = Inr (instances cl ! unat num)) \<and>
         (TestCluster_Size cl \<le> unat num \<longrightarrow>
            TestCluster_Instance cl num = Inl (IndexOutOfRange (unat num) (TestCluster_Size cl)))"
  using assms
  by (simp add: TestCluster_Stopped_def TestCluster_Size_def TestCluster_Instance_def)

theorem Instance_unguarded_index_witness:
  "\<not> TestCluster_Stopped (fst (demo_created [] 2)) \<and>
   TestCluster_Size (fst (demo_created [] 2)) = 2 \<and>
   TestCluster_Instance (fst (demo_created [] 2)) 1 = Inr 1 \<and>
   TestCluster_Instance (fst (demo_created [] 2)) 2 = Inl (IndexOutOfRange 2 2)"
proof -
  have h: "\<not> TestCluster_Stopped (fst (demo_created [] 2))"
    by (simp add: demo_run model_defs)
  have s: "TestCluster_Size (fst (demo_created [] 2)) = 2"
    by (simp add: demo_run model_defs)
  have i: "instances (fst (demo_created [] 2)) = [0, 1]"
    by (simp add: demo_run model_defs)
  from Instance_unguarded_index [OF h, of 1] Instance_unguarded_index [OF h, of 2] h s i
  show ?thesis by simp
qed

text \<open>
  C5. On a cluster that is not stopped, \<^verbatim>\<open>Grow(n, cb)\<close> with \<open>Size() + n > 255\<close> returns
  the capacity error and leaves the cluster and the store as they were: no call to the
  server package is made (the trace is part of the store).
\<close>

theorem Grow_over_capacity:
  assumes "\<not> TestCluster_Stopped cl" and "TestCluster_Size cl + unat n > 255"
  shows "TestCluster_Grow e n cb cl w
           = Inr (Some (GrowCapacity (cl_name cl) (TestCluster_Size cl) n), cl, w)"
  using assms
  by (simp add: TestCluster_Stopped_def TestCluster_Size_def TestCluster_Grow_def)

theorem Grow_over_capacity_witness:
  "\<not> TestCluster_Stopped (fst (demo_created [] 2)) \<and>
   TestCluster_Size (fst (demo_created [] 2)) + unat (254 :: uint8) > 255 \<and>
   TestCluster_Grow (demo_env [] []) 254 DefaultClusterServerConfigCallback
       (fst (demo_created [] 2)) (snd (demo_created [] 2))
     = Inr (Some (GrowCapacity ''c'' 2 254), fst (demo_created [] 2), snd (demo_created [] 2))"
proof -
  have h: "\<not> TestCluster_Stopped (fst (demo_created [] 2))"
    by (simp add: demo_run model_defs)
  have s: "TestCluster_Size (fst (demo_created [] 2)) = 2"
    by (simp add: demo_run model_defs)
  have c: "TestCluster_Size (fst (demo_created [] 2)) + unat (254 :: uint8) > 255"
    by (simp add: s)
  have m: "cl_name (fst (demo_created [] 2)) = ''c''"
    by (simp add: demo_run model_defs)
  from Grow_over_capacity [OF h c, of "demo_env [] []" DefaultClusterServerConfigCallback "snd (demo_created [] 2)"] h c s m
  show ?thesis by simp
qed

section \<open>TestCluster: Shrink and Stop\<close>

text \<open>
  C2, at \<^verbatim>\<open>NewTestCluster("c", 3, nil)\<close> followed by \<^verbatim>\<open>Shrink(1)\<close> and, instead, by
  \<^verbatim>\<open>Shrink(2)\<close>. The loop of \<^verbatim>\<open>Shrink\<close> starts at \<open>l - 1\<close> and runs while \<open>i > l - n\<close>,
  so it stops \<open>n - 1\<close> members, not \<open>n\<close>. \<^verbatim>\<open>Shrink(1)\<close> returns nil and leaves the store
  as it was: member 2 is cut off the cluster and was never stopped. \<^verbatim>\<open>Shrink(2)\<close> stops
  member 2 only: member 1 is cut off and still running.
\<close>

theorem Shrink_leaves_a_member_running:
  "TestCluster_Size (fst (demo_created [] 3)) = 3 \<and>
   TestCluster_Shrink (demo_env [] []) 1 (fst (demo_created [] 3)) (snd (demo_created [] 3))
     = Inr (None, fst (demo_shrunk [] 3 1), snd (demo_created [] 3)) \<and>
   instances (fst (demo_shrunk [] 3 1)) = [0, 1] \<and>
   TestInstance_Stopped 2 (snd (demo_created [] 3)) = Inr False \<and>
   TestCluster_Shrink (demo_env [] []) 2 (fst (demo_created [] 3)) (snd (demo_created [] 3))
     = Inr (None, fst (demo_shrunk [] 3 2), snd (demo_shrunk [] 3 2)) \<and>
   instances (fst (demo_shrunk [] 3 2)) = [0] \<and>
   TestInstance_Stopped 2 (snd (demo_shrunk [] 3 2)) = Inr True \<and>
   TestInstance_Stopped 1 (snd (demo_shrunk [] 3 2)) = Inr False"
  by (simp add: demo_run model_defs)

text \<open>
  C3, at \<^verbatim>\<open>NewTestCluster("c", 1, nil)\<close> followed by \<^verbatim>\<open>Shrink(1)\<close>, which leaves a
  cluster with no member that is not stopped. \<^verbatim>\<open>Stop()\<close> on it returns nil through the
  early return for \<open>l == 0\<close> of \<^verbatim>\<open>stop\<close> and changes nothing: \<^verbatim>\<open>Stopped()\<close> is still false.
\<close>

theorem Stop_of_empty_cluster_not_stopped:
  "TestCluster_Size (fst (demo_shrunk [] 1 1)) = 0 \<and>
   TestCluster_Stopped (fst (demo_shrunk [] 1 1)) = False \<and>
   TestCluster_Stop (demo_env [] []) (fst (demo_shrunk [] 1 1)) (snd (demo_shrunk [] 1 1))
     = Inr (None, fst (demo_shrunk [] 1 1), snd (demo_shrunk [] 1 1))"
  by (simp add: demo_run model_defs)

text \<open>
  C1 as stated fails on the two-node cluster \<^verbatim>\<open>NewTestCluster("c", 2, nil)\<close>:
  \<^verbatim>\<open>Shrink(2)\<close> leaves \<^verbatim>\<open>Stopped()\<close> false, and \<^verbatim>\<open>Shrink(3)\<close> leaves \<^verbatim>\<open>Size()\<close> at 2.
  It also fails on the cluster without members that \<^verbatim>\<open>Shrink(1)\<close> leaves of a one-node
  cluster: a further \<^verbatim>\<open>Shrink(1)\<close> returns nil and \<^verbatim>\<open>Stopped()\<close> is still false.
\<close>

theorem Shrink_all_counterexample:
  "TestCluster_Stopped (fst (demo_created [] 2)) = False \<and>
   TestCluster_Size (fst (demo_created [] 2)) = 2 \<and>
   TestCluster_Shrink (demo_env [] []) 2 (fst (demo_created [] 2)) (snd (demo_created [] 2))
     = Inr (None, fst (demo_shrunk [] 2 2), snd (demo_shrunk [] 2 2)) \<and>
   TestCluster_Stopped (fst (demo_shrunk [] 2 2)) = False \<and>
   TestCluster_Shrink (demo_env [] []) 3 (fst (demo_created [] 2)) (snd (demo_created [] 2))
     = Inr (None, fst (demo_shrunk [] 2 3), snd (demo_shrunk [] 2 3)) \<and>
   TestCluster_Size (fst (demo_shrunk [] 2 3)) = 2 \<and>
   TestCluster_Size (fst (demo_shrunk [] 1 1)) = 0 \<and>
   TestCluster_Stopped (fst (demo_shrunk [] 1 1)) = False \<and>
   TestCluster_Shrink (demo_env [] []) 1 (fst (demo_shrunk [] 1 1)) (snd (demo_shrunk [] 1 1))
     = Inr (None, fst (demo_shrunk [] 1 1), snd (demo_shrunk [] 1 1))"
  by (simp add: demo_run model_defs)

section \<open>Stopping instances one after the other\<close>

lemma only_stops_refl: "only_stops w w"
  by (simp add: only_stops_def)

lemma only_stops_trans:
  assumes "only_stops w w'" and "only_stops w' w''"
  shows "only_stops w w''"
proof -
  have "server (heap w'' ! ti) = None \<or> heap w'' ! ti = heap w ! ti"
    if "ti < length (heap w)" for ti
  proof (cases "server (heap w' ! ti) = None")
    case True
    with assms that show ?thesis by (auto simp: only_stops_def)
  next
    case False
    with assms that have "heap w' ! ti = heap w ! ti" by (auto simp: only_stops_def)
    with assms that show ?thesis by (auto simp: only_stops_def)
  qed
  with assms show ?thesis by (simp add: only_stops_def)
qed

lemma only_stops_Stopped:
  "only_stops w w' \<Longrightarrow> TestInstance_Stopped ti w = Inr True \<Longrightarrow> TestInstance_Stopped ti w' = Inr True"
  by (auto simp: only_stops_def TestInstance_Stopped_def split: if_splits)

lemma only_stops_members_valid: "only_stops w w' \<Longrightarrow> members_valid cl w \<Longrightarrow> members_valid cl w'"
  by (simp add: only_stops_def members_valid_def)

lemma TestInstance_Stop_valid:
  assumes "ti < length (heap w)"
  shows "\<exists>r w'. TestInstance_Stop e ti w = Inr (r, w') \<and> only_stops w w' \<and>
           TestInstance_Stopped ti w' = Inr True"
proof (cases "server (heap w ! ti)")
  case None
  with assms show ?thesis
    by (simp add: TestInstance_Stop_def TestInstance_Stopped_def only_stops_refl)
next
  case (Some srv)
  with assms show ?thesis
    by (simp add: TestInstance_Stop_def TestInstance_Stopped_def only_stops_def nth_list_update)
qed

lemma stop_loop_valid:
  assumes "\<forall>i<k. xs ! i < length (heap w)"
  shows "\<exists>err' w'. stop_loop e xs k err w = Inr (err', w') \<and> only_stops w w' \<and>
           (\<forall>i<k. TestInstance_Stopped (xs ! i) w' = Inr True)"
  using assms
proof (induction k arbitrary: err w)
  case 0
  then show ?case by (simp add: only_stops_refl)
next
  case (Suc k)
  from Suc.prems have "xs ! k < length (heap w)" by simp
  from TestInstance_Stop_valid [OF this, of e]
  obtain r w1 where s1: "TestInstance_Stop e (xs ! k) w = Inr (r, w1)"
    and o1: "only_stops w w1" and d1: "TestInstance_Stopped (xs ! k) w1 = Inr True"
    by blast
  from Suc.prems o1 have "\<forall>i<k. xs ! i < length (heap w1)"
    by (simp add: only_stops_def)
  from Suc.IH [OF this, of "MultiErr_Add err r"]
  obtain err' w' where s2: "stop_loop e xs k (MultiErr_Add err r) w1 = Inr (err', w')"
    and o2: "only_stops w1 w'" and d2: "\<forall>i<k. TestInstance_Stopped (xs ! i) w' = Inr True"
    by blast
  have "\<forall>i<Suc k. TestInstance_Stopped (xs ! i) w' = Inr True"
    using d2 only_stops_Stopped [OF o2 d1] by (auto simp: less_Suc_eq)
  with s1 s2 only_stops_trans [OF o1 o2] show ?case by simp
qed

lemma TestCluster_stop_nonempty:
  assumes "members_valid cl w" and "instances cl \<noteq> []"
  shows "\<exists>r w'. TestCluster_stop e cl w = Inr (r, cl\<lparr>stopped := True\<rparr>, w') \<and> only_stops w w' \<and>
           list_all (\<lambda>ti. TestInstance_Stopped ti w' = Inr True) (instances cl)"
proof -
  from assms(1) have "\<forall>i<length (instances cl). instances cl ! i < length (heap w)"
    by (simp add: members_valid_def list_all_length)
  from stop_loop_valid [OF this, of e NewMultiErr]
  obtain err' w' where "stop_loop e (instances cl) (length (instances cl)) NewMultiErr w = Inr (err', w')"
    and "only_stops w w'"
    and "\<forall>i<length (instances cl). TestInstance_Stopped (instances cl ! i) w' = Inr True"
    by blast
  with assms(2) show ?thesis
    by (simp add: TestCluster_stop_def list_all_length)
qed

lemma word_of_size_less:
  assumes "s < unat (n :: uint8)"
  shows "(word_of_nat s :: uint8) < n"
proof -
  have "unat n < 256" using unsigned_less [of n, where 'a = nat] by simp
  with assms have "s < 256" by simp
  then have "unat (word_of_nat s :: uint8) = s"
    by (simp add: unat_of_nat)
  with assms show ?thesis by (simp add: word_less_nat_alt)
qed

text \<open>
  C1, amended. On a cluster that is not stopped, has \<open>s \<ge> 1\<close> members, none of them nil,
  \<^verbatim>\<open>Shrink(n)\<close> with \<open>n > s\<close> is \<^verbatim>\<open>stop()\<close>: it returns, every member is stopped and
  \<^verbatim>\<open>Stopped()\<close> is true afterwards; the members stay in the cluster, so \<^verbatim>\<open>Size()\<close> is still
  \<open>s\<close>.
\<close>

theorem Shrink_more_than_size_stops:
  assumes "\<not> TestCluster_Stopped cl" and "members_valid cl w"
    and "1 \<le> TestCluster_Size cl" and "TestCluster_Size cl < unat n"
  shows "\<exists>r cl' w'. TestCluster_Shrink e n cl w = Inr (r, cl', w') \<and>
           TestCluster_Stopped cl' \<and> TestCluster_Size cl' = TestCluster_Size cl \<and>
           instances cl' = instances cl \<and>
           list_all (\<lambda>ti. TestInstance_Stopped ti w' = Inr True) (instances cl')"
proof -
  from assms(3) have ne: "instances cl \<noteq> []"
    by (auto simp: TestCluster_Size_def)
  from assms(4) have "(word_of_nat (length (instances cl)) :: uint8) < n"
    by (simp add: TestCluster_Size_def word_of_size_less)
  then have "TestCluster_Shrink e n cl w = TestCluster_stop e cl w"
    by (simp add: TestCluster_Shrink_def)
  with TestCluster_stop_nonempty [OF assms(2) ne, of e] show ?thesis
    by (auto simp: TestCluster_Stopped_def TestCluster_Size_def)
qed

theorem Shrink_more_than_size_stops_witness:
  "\<not> TestCluster_Stopped (fst (demo_created [''lan:1''] 2)) \<and>
   members_valid (fst (demo_created [''lan:1''] 2)) (snd (demo_created [''lan:1''] 2)) \<and>
   1 \<le> TestCluster_Size (fst (demo_created [''lan:1''] 2)) \<and>
   TestCluster_Size (fst (demo_created [''lan:1''] 2)) < unat (3 :: uint8) \<and>
   (\<exists>r cl' w'. TestCluster_Shrink (demo_env [] [''lan:1'']) 3 (fst (demo_created [''lan:1''] 2))
                  (snd (demo_created [''lan:1''] 2)) = Inr (r, cl', w') \<and>
      TestCluster_Stopped cl' \<and> TestCluster_Size cl' = 2 \<and>
      list_all (\<lambda>ti. TestInstance_Stopped ti w' = Inr True) (instances cl'))"
proof -
  have h1: "\<not> TestCluster_Stopped (fst (demo_created [''lan:1''] 2))"
    by (simp add: demo_run model_defs)
  have h2: "members_valid (fst (demo_created [''lan:1''] 2)) (snd (demo_created [''lan:1''] 2))"
    by (simp add: members_valid_def demo_run model_defs)
  have s: "TestCluster_Size (fst (demo_created [''lan:1''] 2)) = 2"
    by (simp add: demo_run model_defs)
  have h3: "1 \<le> TestCluster_Size (fst (demo_created [''lan:1''] 2))"
    by (simp add: s)
  have h4: "TestCluster_Size (fst (demo_created [''lan:1''] 2)) < unat (3 :: uint8)"
    by (simp add: s)
  from Shrink_more_than_size_stops [OF h1 h2 h3 h4, of "demo_env [] [''lan:1'']"] h1 h2 h3 h4 s
  show ?thesis by auto
qed

section \<open>Creating instances and growing a cluster\<close>

lemma NewTestInstance_Inr:
  assumes "NewTestInstance e nm cb w = (Inr ti, w1)"
  shows "ti = length (heap w) \<and> cheap w1 = cheap w \<and>
         (\<exists>srv c. NewTestServerConfig e (trace w) cb = Inr srv \<and>
            heap w1 = heap w @ [\<lparr>name = nm, server = Some srv, client = Some c\<rparr>] \<and>
            trace w1 = trace w @ [CallNewTestServerConfig cb, CallNewClient (HTTPAddr srv)])"
  using assms
  by (auto simp: NewTestInstance_def Let_def split: sum.splits)

lemma NewTestInstance_Inl:
  assumes "NewTestInstance e nm cb w = (Inl err, w1)"
  shows "heap w1 = heap w \<and> cheap w1 = cheap w \<and>
         (\<exists>tr. trace w1 = trace w @ CallNewTestServerConfig cb # tr)"
  using assms
  by (auto simp: NewTestInstance_def Let_def split: sum.splits)

text \<open>One turn of the loop of \<^verbatim>\<open>Grow\<close>: the four ways it can go on without a panic.\<close>

lemma grow_loop_cases:
  assumes "grow_loop e cb current n i cl w = Inr (res, cl', w')"
  obtains
    (finished) "\<not> i < n" "res = None" "cl' = cl" "w' = w"
  | (create_failed) err where "i < n"
      "NewTestInstance e (Sprintf_s_d (cl_name cl) (of_nat current + i))
         (cb (cl_name cl) (of_nat current + i)) w = (Inl err, w')"
      "res = Some (GrowCreateFailed (cl_name cl) (of_nat current + i) err)" "cl' = cl"
  | (join_failed) err w1 srv c c0 where "i < n"
      "heap w1 = heap w @ [\<lparr>name = Sprintf_s_d (cl_name cl) (of_nat current + i),
                            server = Some srv, client = Some c\<rparr>]"
      "cheap w1 = cheap w" "\<exists>tr. trace w1 = trace w @ tr"
      "AgentJoin e (trace w1) c0 (LANAddr srv) False = Some err"
      "res = Some (GrowJoinFailed (cl_name cl) (of_nat current + i) err)" "cl' = cl"
      "w' = w1\<lparr>trace := trace w1 @ [CallJoin c0 (LANAddr srv) False, CallServerStop srv],
                heap := (heap w1)[length (heap w) :=
                  \<lparr>name = Sprintf_s_d (cl_name cl) (of_nat current + i),
                   server = None, client = None\<rparr>]\<rparr>"
  | (joined) w2 inst where "i < n"
      "heap w2 = heap w @ [inst]" "cheap w2 = cheap w" "\<exists>tr. trace w2 = trace w @ tr"
      "grow_loop e cb current n (i + 1) (cl\<lparr>instances := instances cl @ [length (heap w)]\<rparr>) w2
         = Inr (res, cl', w')"
proof (cases "i < n")
  case False
  with assms have "res = None" and "cl' = cl" and "w' = w"
    by (subst (asm) grow_loop.simps, simp)+
  with False show ?thesis by (intro finished) auto
next
  case True
  show ?thesis
  proof (cases "NewTestInstance e (Sprintf_s_d (cl_name cl) (of_nat current + i))
         (cb (cl_name cl) (of_nat current + i)) w")
    case (Pair r w1)
    show ?thesis
    proof (cases r)
      case (Inl err)
      with assms True Pair
      have "res = Some (GrowCreateFailed (cl_name cl) (of_nat current + i) err)"
        and "cl' = cl" and "w' = w1"
        by (subst (asm) grow_loop.simps, simp)+
      with True Pair Inl show ?thesis
        by (intro create_failed [of err]) auto
    next
      case (Inr ti)
      from NewTestInstance_Inr [OF Pair [unfolded Inr]]
      obtain srv c where ti: "ti = length (heap w)" and ch: "cheap w1 = cheap w"
        and hp: "heap w1 = heap w @ [\<lparr>name = Sprintf_s_d (cl_name cl) (of_nat current + i),
                            server = Some srv, client = Some c\<rparr>]"
        and tr: "trace w1 = trace w @ [CallNewTestServerConfig (cb (cl_name cl) (of_nat current + i)),
                   CallNewClient (HTTPAddr srv)]"
        by blast
      have lan: "TestInstance_LANAddr ti w1 = Inr (LANAddr srv)"
        by (simp add: TestInstance_LANAddr_def with_server_def ti hp)
      from assms True Pair Inr lan
      obtain i0 rest c0 where api: "TestInstance_APIClient i0 w1 = Inr (Some c0)"
        and rest: "(case AgentJoin e (trace w1) c0 (LANAddr srv) False of
                  Some err \<Rightarrow>
                    (case TestInstance_Stop e ti (w1\<lparr>trace := trace w1 @ [CallJoin c0 (LANAddr srv) False]\<rparr>) of
                       Inl p \<Rightarrow> Inl p
                     | Inr (r, w3) \<Rightarrow>
                         Inr (Some (GrowJoinFailed (cl_name cl) (of_nat current + i) err), cl, w3))
                | None \<Rightarrow>
                    grow_loop e cb current n (i + 1) (cl\<lparr>instances := instances cl @ [ti]\<rparr>)
                      (w1\<lparr>trace := trace w1 @ [CallJoin c0 (LANAddr srv) False]\<rparr>))
               = Inr (res, cl', w')"
      proof (cases "instances cl")
        case Nil
        with assms True Pair Inr lan show ?thesis
          by (subst (asm) grow_loop.simps) (simp add: Let_def)
      next
        case (Cons i0 rest)
        note c1 = this
        show ?thesis
        proof (cases "TestInstance_APIClient i0 w1")
          case (Inl p)
          with assms True Pair Inr lan c1 show ?thesis
            by (subst (asm) grow_loop.simps) (simp add: Let_def)
        next
          case (Inr c)
          note c2 = this
          show ?thesis
          proof (cases c)
            case None
            with assms True Pair \<open>r = Inr ti\<close> lan c1 c2 show ?thesis
              by (subst (asm) grow_loop.simps) (simp add: Let_def)
          next
            case (Some c0)
            with assms True Pair \<open>r = Inr ti\<close> lan c1 c2
            have "(case AgentJoin e (trace w1) c0 (LANAddr srv) False of
                  Some err \<Rightarrow>
                    (case TestInstance_Stop e ti (w1\<lparr>trace := trace w1 @ [CallJoin c0 (LANAddr srv) False]\<rparr>) of
                       Inl p \<Rightarrow> Inl p
                     | Inr (r, w3) \<Rightarrow>
                         Inr (Some (GrowJoinFailed (cl_name cl) (of_nat current + i) err), cl, w3))
                | None \<Rightarrow>
                    grow_loop e cb current n (i + 1) (cl\<lparr>instances := instances cl @ [ti]\<rparr>)
                      (w1\<lparr>trace := trace w1 @ [CallJoin c0 (LANAddr srv) False]\<rparr>))
               = Inr (res, cl', w')"
              by (subst (asm) grow_loop.simps) (simp add: Let_def)
            with Some c2 that [of i0 c0] show ?thesis by simp
          qed
        qed
      qed
      show ?thesis
      proof (cases "AgentJoin e (trace w1) c0 (LANAddr srv) False")
        case None
        with rest have "grow_loop e cb current n (i + 1) (cl\<lparr>instances := instances cl @ [length (heap w)]\<rparr>)
                      (w1\<lparr>trace := trace w1 @ [CallJoin c0 (LANAddr srv) False]\<rparr>) = Inr (res, cl', w')"
          by (simp add: ti)
        with True hp ch tr show ?thesis
          by (intro joined [of "w1\<lparr>trace := trace w1 @ [CallJoin c0 (LANAddr srv) False]\<rparr>"]) auto
      next
        case (Some err)
        with rest hp ti
        have "res = Some (GrowJoinFailed (cl_name cl) (of_nat current + i) err)" "cl' = cl"
          "w' = w1\<lparr>trace := trace w1 @ [CallJoin c0 (LANAddr srv) False, CallServerStop srv],
                heap := (heap w1)[length (heap w) :=
                  \<lparr>name = Sprintf_s_d (cl_name cl) (of_nat current + i),
                   server = None, client = None\<rparr>]\<rparr>"
          by (auto simp: TestInstance_Stop_def)
        with True hp ch tr Some show ?thesis
          by (intro join_failed [of w1 srv c c0 err]) auto
      qed
    qed
  qed
qed


lemma uint8_next:
  assumes "(i :: uint8) < n"
  shows "unat (i + 1) = Suc (unat i)"
  using assms by unat_arith

lemma take_Suc_snoc:
  assumes "take (Suc (length xs)) ys = xs @ [x]"
  shows "take (length xs) ys = xs"
proof -
  have "take (length xs) (take (Suc (length xs)) ys) = take (length xs) (xs @ [x])"
    using assms by simp
  then show ?thesis by (simp add: min_def)
qed

text \<open>What every run of the loop that does not panic leaves in place.\<close>

lemma grow_loop_frame:
  assumes "grow_loop e cb current n i cl w = Inr (res, cl', w')"
  shows "cl_name cl' = cl_name cl \<and> cl_size cl' = cl_size cl \<and> stopped cl' = stopped cl \<and>
         cheap w' = cheap w \<and> take (length (heap w)) (heap w') = heap w \<and>
         take (length (instances cl)) (instances cl') = instances cl \<and>
         (\<exists>tr. trace w' = trace w @ tr)"
  using assms
proof (induction "unat n - unat i" arbitrary: i cl w rule: less_induct)
  case less
  from less.prems show ?case
  proof (cases rule: grow_loop_cases)
    case finished
    then show ?thesis by simp
  next
    case (create_failed err)
    with NewTestInstance_Inl [OF create_failed(2)] show ?thesis by auto
  next
    case (join_failed err w1 srv c c0)
    then show ?thesis by auto
  next
    case (joined w2 inst)
    from joined(1) have "unat n - unat (i + 1) < unat n - unat i"
      by unat_arith
    from less.hyps [OF this joined(5)] joined(2,3,4)
    have "cl_name cl' = cl_name cl \<and> cl_size cl' = cl_size cl \<and> stopped cl' = stopped cl \<and>
         cheap w' = cheap w \<and> take (Suc (length (heap w))) (heap w') = heap w @ [inst] \<and>
         take (Suc (length (instances cl))) (instances cl') = instances cl @ [length (heap w)] \<and>
         (\<exists>tr. trace w' = trace w @ tr)"
      by auto
    then show ?thesis
      by (auto dest: take_Suc_snoc)
  qed
qed

lemma grow_loop_success:
  assumes "grow_loop e cb current n i cl w = Inr (None, cl', w')" and "i \<le> n"
  shows "length (instances cl') = length (instances cl) + (unat n - unat i)"
  using assms
proof (induction "unat n - unat i" arbitrary: i cl w rule: less_induct)
  case less
  from less.prems(1) show ?case
  proof (cases rule: grow_loop_cases)
    case finished
    with less.prems(2) have "i = n" by simp
    with finished show ?thesis by simp
  next
    case (create_failed err)
    then show ?thesis by simp
  next
    case (join_failed err w1 srv c c0)
    then show ?thesis by simp
  next
    case (joined w2 inst)
    from joined(1) have d: "unat n - unat (i + 1) < unat n - unat i" and l: "i + 1 \<le> n"
      and u: "unat n - unat i = Suc (unat n - unat (i + 1))"
      by unat_arith+
    from less.hyps [OF d joined(5) l] u show ?thesis by simp
  qed
qed

text \<open>
  A run that ends with the join error: \<open>k\<close> nodes were added before the node at
  \<open>current + i + k\<close> failed to join; that node is the last object of the store and has
  no server, and the run ended with the failed call to \<^verbatim>\<open>Join\<close> and the call that stops
  the node's server.
\<close>

lemma grow_loop_join_failed:
  assumes "grow_loop e cb current n i cl w = Inr (Some (GrowJoinFailed nm off err), cl', w')"
  shows "\<exists>k. unat i + k < unat n \<and> off = of_nat current + i + of_nat k \<and> nm = cl_name cl \<and>
           instances cl' = instances cl @ [length (heap w) ..< length (heap w) + k] \<and>
           length (heap w') = Suc (length (heap w) + k) \<and>
           name (heap w' ! (length (heap w) + k)) = Sprintf_s_d nm off \<and>
           server (heap w' ! (length (heap w) + k)) = None \<and>
           (\<exists>tr c srv. trace w' = tr @ [CallJoin c (LANAddr srv) False, CallServerStop srv] \<and>
              AgentJoin e tr c (LANAddr srv) False = Some err)"
  using assms
proof (induction "unat n - unat i" arbitrary: i cl w rule: less_induct)
  case less
  from less.prems show ?case
  proof (cases rule: grow_loop_cases)
    case finished
    then show ?thesis by simp
  next
    case (create_failed err')
    then show ?thesis by simp
  next
    case (join_failed err' w1 srv c c0)
    from join_failed(1) have "unat i + 0 < unat n" by (simp add: word_less_nat_alt)
    moreover from join_failed
    have "trace w' = trace w1 @ [CallJoin c0 (LANAddr srv) False, CallServerStop srv] \<and>
          AgentJoin e (trace w1) c0 (LANAddr srv) False = Some err"
      by simp
    ultimately show ?thesis using join_failed
      by (intro exI [of _ 0]) (auto simp: nth_append)
  next
    case (joined w2 inst)
    from joined(1) have d: "unat n - unat (i + 1) < unat n - unat i"
      by unat_arith
    from less.hyps [OF d joined(5)] joined(2)
    obtain k where k: "unat (i + 1) + k < unat n" "off = of_nat current + (i + 1) + of_nat k"
      "nm = cl_name cl"
      "instances cl' = (instances cl @ [length (heap w)]) @ [Suc (length (heap w)) ..< Suc (length (heap w)) + k]"
      "length (heap w') = Suc (Suc (length (heap w)) + k)"
      "name (heap w' ! (Suc (length (heap w)) + k)) = Sprintf_s_d nm off"
      "server (heap w' ! (Suc (length (heap w)) + k)) = None"
      "\<exists>tr c srv. trace w' = tr @ [CallJoin c (LANAddr srv) False, CallServerStop srv] \<and>
              AgentJoin e tr c (LANAddr srv) False = Some err"
      by auto
    from k(1) uint8_next [OF joined(1)] have "unat i + Suc k < unat n" by simp
    moreover from k(2) have "off = of_nat current + i + of_nat (Suc k)" by simp
    moreover have "[length (heap w) ..< length (heap w) + Suc k]
                     = length (heap w) # [Suc (length (heap w)) ..< Suc (length (heap w)) + k]"
      by (simp add: upt_conv_Cons del: upt_Suc)
    with k(4)
    have "instances cl' = instances cl @ [length (heap w) ..< length (heap w) + Suc k]"
      by simp
    ultimately show ?thesis using k(3,5,6,7,8)
      by (intro exI [of _ "Suc k"]) simp
  qed
qed


text \<open>
  What a join error returned by \<^verbatim>\<open>Grow(n, cb)\<close> says, on a cluster that is not stopped
  and has no nil member: the offset \<open>off\<close> it names is \<open>s + i\<close> for an \<open>i < n\<close>, where
  \<open>s\<close> is the size before; the cluster has \<open>s + i\<close> members afterwards, the old
  ones first; the node that failed is the newest object of the store, named
  \<open>name-off\<close>, it is stopped and is not a member; and the last two calls were the
  \<^verbatim>\<open>Join\<close> that failed with the error reported, and the stop of that node's server.
\<close>

lemma Grow_join_error_shape:
  assumes "\<not> TestCluster_Stopped cl" and "members_valid cl w"
    and "TestCluster_Grow e n cb cl w = Inr (Some (GrowJoinFailed nm off err), cl', w')"
  shows "\<exists>i. i < unat n \<and> unat off = TestCluster_Size cl + i \<and>
           TestCluster_Size cl' = TestCluster_Size cl + i \<and>
           take (TestCluster_Size cl) (instances cl') = instances cl \<and>
           length (heap w') = Suc (length (heap w) + i) \<and>
           name (heap w' ! (length (heap w) + i)) = Sprintf_s_d (cl_name cl) off \<and>
           TestInstance_Stopped (length (heap w) + i) w' = Inr True \<and>
           length (heap w) + i \<notin> set (instances cl') \<and>
           (\<exists>tr c srv. trace w' = tr @ [CallJoin c (LANAddr srv) False, CallServerStop srv] \<and>
              AgentJoin e tr c (LANAddr srv) False = Some err)"
proof -
  let ?s = "length (instances cl)"
  from assms(1,3) have cap: "?s + unat n \<le> 255"
    and run: "grow_loop e cb ?s n 0 cl w = Inr (Some (GrowJoinFailed nm off err), cl', w')"
    by (auto simp: TestCluster_Stopped_def TestCluster_Grow_def Let_def split: if_splits)
  from grow_loop_join_failed [OF run]
  obtain k where k: "k < unat n" "off = of_nat ?s + of_nat k" "nm = cl_name cl"
    "instances cl' = instances cl @ [length (heap w) ..< length (heap w) + k]"
    "length (heap w') = Suc (length (heap w) + k)"
    "name (heap w' ! (length (heap w) + k)) = Sprintf_s_d nm off"
    "server (heap w' ! (length (heap w) + k)) = None"
    "\<exists>tr c srv. trace w' = tr @ [CallJoin c (LANAddr srv) False, CallServerStop srv] \<and>
              AgentJoin e tr c (LANAddr srv) False = Some err"
    by auto
  from cap k(1) have "?s + k < 256" by simp
  then have "unat (of_nat ?s + of_nat k :: uint8) = ?s + k"
    by (simp add: unat_word_ariths unat_of_nat)
  with k(2) have off: "unat off = ?s + k" by simp
  from assms(2) have "\<forall>ti \<in> set (instances cl). ti < length (heap w)"
    by (simp add: members_valid_def list_all_iff)
  with k(4) have fresh: "length (heap w) + k \<notin> set (instances cl')"
    by auto
  from k(5,7) have "TestInstance_Stopped (length (heap w) + k) w' = Inr True"
    by (simp add: TestInstance_Stopped_def)
  with k off fresh show ?thesis
    by (intro exI [of _ k]) (simp add: TestCluster_Size_def)
qed

section \<open>Grow, turn by turn\<close>

text \<open>
  A turn of the loop of \<^verbatim>\<open>Grow\<close> in which the node starts and its join fails: the loop
  stops the node and returns the join error; the cluster is as it was before the turn.
\<close>

lemma grow_loop_join_fails:
  assumes "i < n"
    and "NewTestInstance e (Sprintf_s_d (cl_name cl) (of_nat current + i))
           (cb (cl_name cl) (of_nat current + i)) w = (Inr ti, w1)"
    and "instances cl = i0 # rest" and "TestInstance_APIClient i0 w1 = Inr (Some c0)"
    and "TestInstance_LANAddr ti w1 = Inr lan"
    and "AgentJoin e (trace w1) c0 lan False = Some err"
  shows "\<exists>r w'. TestInstance_Stop e ti (w1\<lparr>trace := trace w1 @ [CallJoin c0 lan False]\<rparr>) = Inr (r, w') \<and>
           TestInstance_Stopped ti w' = Inr True \<and>
           grow_loop e cb current n i cl w
             = Inr (Some (GrowJoinFailed (cl_name cl) (of_nat current + i) err), cl, w')"
proof -
  from NewTestInstance_Inr [OF assms(2)] have "ti < length (heap w1)" by auto
  then have "ti < length (heap (w1\<lparr>trace := trace w1 @ [CallJoin c0 lan False]\<rparr>))" by simp
  from TestInstance_Stop_valid [OF this, of e]
  obtain r w' where s: "TestInstance_Stop e ti (w1\<lparr>trace := trace w1 @ [CallJoin c0 lan False]\<rparr>) = Inr (r, w')"
    and d: "TestInstance_Stopped ti w' = Inr True"
    by blast
  have "grow_loop e cb current n i cl w
             = Inr (Some (GrowJoinFailed (cl_name cl) (of_nat current + i) err), cl, w')"
    by (subst grow_loop.simps) (simp add: assms s Let_def)
  with s d show ?thesis by blast
qed

text \<open>
  The first turns of a run do not depend on the bound of the loop: when the run up to
  \<open>m\<close> joins every node, the run up to \<open>n \<ge> m\<close> goes on from where that one ended.
\<close>

lemma grow_loop_prefix:
  assumes "grow_loop e cb current m j cl w = Inr (None, cl_m, w_m)" and "j \<le> m" and "m \<le> n"
  shows "grow_loop e cb current n j cl w = grow_loop e cb current n m cl_m w_m"
  using assms
proof (induction "unat m - unat j" arbitrary: j cl w rule: less_induct)
  case less
  show ?case
  proof (cases "j < m")
    case False
    with less.prems(2) have "j = m" by simp
    with less.prems(1) show ?thesis
      by (subst (asm) grow_loop.simps) simp
  next
    case True
    with less.prems(3) have jn: "j < n" by simp
    from True have d: "unat m - unat (j + 1) < unat m - unat j" and l: "j + 1 \<le> m"
      by unat_arith+
    note IH = less.hyps [OF d _ l less.prems(3)]
    from less.prems(1) True jn show ?thesis
      apply (subst (asm) grow_loop.simps)
      apply (subst grow_loop.simps [of e cb current n j])
      apply (auto simp: Let_def split: prod.splits sum.splits list.splits option.splits
                  intro: IH)
      done
  qed
qed


text \<open>
  C4. A cluster that is not stopped, with \<open>s\<close> members, none of them nil, and
  \<open>s + n \<le> 255\<close>. Suppose the first \<open>i < n\<close> nodes start and join (\<^verbatim>\<open>Grow(i, cb)\<close> returns
  nil, leaving the cluster \<open>cl_i\<close>), the node at offset \<open>s + i\<close> starts, and the call
  of \<^verbatim>\<open>Join\<close> on the client of member 0 with the LAN address of that node fails. Then
  \<^verbatim>\<open>Grow(n, cb)\<close> returns the join error for offset \<open>s + i\<close>; the cluster it leaves is
  \<open>cl_i\<close>, with \<open>s + i\<close> members, the old ones first; the store it leaves is the store
  after the failed call and the \<^verbatim>\<open>Stop()\<close> of the new node; that node is stopped, is
  named \<open>name-(s+i)\<close> and is not a member.
\<close>

theorem Grow_join_failure:
  assumes ns: "\<not> TestCluster_Stopped cl" and mv: "members_valid cl w"
    and cap: "TestCluster_Size cl + unat n \<le> 255" and lt: "i < n"
    and first: "TestCluster_Grow e i cb cl w = Inr (None, cl_i, w_i)"
    and create: "NewTestInstance e (Sprintf_s_d (cl_name cl) (of_nat (TestCluster_Size cl) + i))
                   (cb (cl_name cl) (of_nat (TestCluster_Size cl) + i)) w_i = (Inr ti, w1)"
    and m0: "TestCluster_Instance cl_i 0 = Inr i0"
    and api: "TestInstance_APIClient i0 w1 = Inr (Some c0)"
    and lan: "TestInstance_LANAddr ti w1 = Inr lan"
    and fail: "AgentJoin e (trace w1) c0 lan False = Some err"
  shows "\<exists>off r w'.
           TestCluster_Grow e n cb cl w
             = Inr (Some (GrowJoinFailed (cl_name cl) off err), cl_i, w') \<and>
           unat off = TestCluster_Size cl + unat i \<and>
           TestCluster_Size cl_i = TestCluster_Size cl + unat i \<and>
           take (TestCluster_Size cl) (instances cl_i) = instances cl \<and>
           TestInstance_Stop e ti (w1\<lparr>trace := trace w1 @ [CallJoin c0 lan False]\<rparr>) = Inr (r, w') \<and>
           TestInstance_Stopped ti w' = Inr True \<and>
           ti \<notin> set (instances cl_i) \<and>
           name (heap w' ! ti) = Sprintf_s_d (cl_name cl) off"
proof -
  let ?s = "length (instances cl)"
  let ?off = "of_nat ?s + i :: uint8"
  from first ns have run_i: "grow_loop e cb ?s i 0 cl w = Inr (None, cl_i, w_i)"
    by (auto simp: TestCluster_Stopped_def TestCluster_Grow_def Let_def split: if_splits)
  from grow_loop_frame [OF run_i]
  have nm: "cl_name cl_i = cl_name cl" and old: "take ?s (instances cl_i) = instances cl"
    by simp_all
  from grow_loop_success [OF run_i] have len: "length (instances cl_i) = ?s + unat i"
    by simp
  from m0 obtain rest where mem: "instances cl_i = i0 # rest"
    by (cases "instances cl_i") (auto simp: TestCluster_Instance_def split: if_splits)
  from ns cap have "TestCluster_Grow e n cb cl w = grow_loop e cb ?s n 0 cl w"
    by (simp add: TestCluster_Stopped_def TestCluster_Size_def TestCluster_Grow_def)
  also from lt have "\<dots> = grow_loop e cb ?s n i cl_i w_i"
    by (intro grow_loop_prefix [OF run_i]) simp_all
  finally have whole: "TestCluster_Grow e n cb cl w = grow_loop e cb ?s n i cl_i w_i" .
  from create nm
  have create': "NewTestInstance e (Sprintf_s_d (cl_name cl_i) ?off) (cb (cl_name cl_i) ?off) w_i
                   = (Inr ti, w1)"
    by (simp add: TestCluster_Size_def)
  from grow_loop_join_fails [where cb = cb and current = ?s, OF lt create' mem api lan fail]
  obtain r w' where stop: "TestInstance_Stop e ti (w1\<lparr>trace := trace w1 @ [CallJoin c0 lan False]\<rparr>) = Inr (r, w')"
    and stopped: "TestInstance_Stopped ti w' = Inr True"
    and turn: "grow_loop e cb ?s n i cl_i w_i
                 = Inr (Some (GrowJoinFailed (cl_name cl_i) ?off err), cl_i, w')"
    by blast
  from whole turn nm
  have res: "TestCluster_Grow e n cb cl w = Inr (Some (GrowJoinFailed (cl_name cl) ?off err), cl_i, w')"
    by simp
  from lt have "unat i < unat n" by (simp add: word_less_nat_alt)
  with cap have "?s + unat i < 256" by (simp add: TestCluster_Size_def)
  then have off: "unat ?off = ?s + unat i"
    by (simp add: unat_word_ariths unat_of_nat)
  from Grow_join_error_shape [OF ns mv res] off
  have shape: "length (heap w') = Suc (length (heap w) + unat i)"
    "name (heap w' ! (length (heap w) + unat i)) = Sprintf_s_d (cl_name cl) ?off"
    "length (heap w) + unat i \<notin> set (instances cl_i)"
    by (auto simp: TestCluster_Size_def)
  from NewTestInstance_Inr [OF create] have "ti = length (heap w_i)"
    and "length (heap w1) = Suc (length (heap w_i))"
    by auto
  moreover from stop have "length (heap w') = length (heap w1)"
    by (auto simp: TestInstance_Stop_def split: if_splits option.splits)
  ultimately have "ti = length (heap w) + unat i"
    using shape(1) by simp
  with res off len old stop stopped shape show ?thesis
    by (intro exI [of _ ?off] exI [of _ r] exI [of _ w']) (simp add: TestCluster_Size_def)
qed

text \<open>
  The one-node cluster grown by three in an environment where the join of the server
  with LAN address \<open>lan:2\<close> fails: the first new node joins, the second does not.
\<close>

theorem Grow_join_failure_witness:
  "\<not> TestCluster_Stopped (demo_cluster [0]) \<and> members_valid (demo_cluster [0]) (demo_world [0]) \<and>
   TestCluster_Size (demo_cluster [0]) + unat (3 :: uint8) \<le> 255 \<and> (1 :: uint8) < 3 \<and>
   TestCluster_Grow (demo_env [''lan:2''] []) 1 DefaultClusterServerConfigCallback
       (demo_cluster [0]) (demo_world [0])
     = Inr (None, fst (demo_grown [''lan:2''] 1 1), snd (demo_grown [''lan:2''] 1 1)) \<and>
   fst (NewTestInstance (demo_env [''lan:2''] []) ''c-2''
          (DefaultClusterServerConfigCallback ''c'' 2) (snd (demo_grown [''lan:2''] 1 1))) = Inr 2 \<and>
   AgentJoin (demo_env [''lan:2''] [])
       (trace (snd (NewTestInstance (demo_env [''lan:2''] []) ''c-2''
          (DefaultClusterServerConfigCallback ''c'' 2) (snd (demo_grown [''lan:2''] 1 1)))))
       (Client ''http:0'') ''lan:2'' False = Some (External ''join refused'') \<and>
   (\<exists>w'. TestCluster_Grow (demo_env [''lan:2''] []) 3 DefaultClusterServerConfigCallback
            (demo_cluster [0]) (demo_world [0])
          = Inr (Some (GrowJoinFailed ''c'' 2 (External ''join refused'')),
                 fst (demo_grown [''lan:2''] 1 1), w') \<and>
        TestInstance_Stopped 2 w' = Inr True) \<and>
   TestCluster_Size (fst (demo_grown [''lan:2''] 1 1)) = 2 \<and>
   2 \<notin> set (instances (fst (demo_grown [''lan:2''] 1 1)))"
proof -
  let ?e = "demo_env [''lan:2''] []"
  let ?cl = "demo_cluster [0]" and ?w = "demo_world [0]"
  let ?cl1 = "fst (demo_grown [''lan:2''] 1 1)" and ?w1 = "snd (demo_grown [''lan:2''] 1 1)"
  let ?new = "NewTestInstance ?e ''c-2'' (DefaultClusterServerConfigCallback ''c'' 2) ?w1"
  have h1: "\<not> TestCluster_Stopped ?cl"
    by (simp add: demo_run model_defs)
  have h2: "members_valid ?cl ?w"
    by (simp add: members_valid_def demo_run model_defs)
  have s: "TestCluster_Size ?cl = 1" "cl_name ?cl = ''c''"
    by (simp_all add: demo_run model_defs)
  have h3: "TestCluster_Size ?cl + unat (3 :: uint8) \<le> 255"
    by (simp add: s)
  have h4: "(1 :: uint8) < 3" by simp
  have h5: "TestCluster_Grow ?e 1 DefaultClusterServerConfigCallback ?cl ?w = Inr (None, ?cl1, ?w1)"
    by (simp add: demo_grown_def demo_run model_defs)
  have new: "fst ?new = Inr 2"
    by (simp add: demo_grown_def demo_run model_defs)
  have h6: "NewTestInstance ?e (Sprintf_s_d (cl_name ?cl) (of_nat (TestCluster_Size ?cl) + 1))
              (DefaultClusterServerConfigCallback (cl_name ?cl) (of_nat (TestCluster_Size ?cl) + 1)) ?w1
            = (Inr 2, snd ?new)"
    using new by (simp add: s Sprintf_s_d_def prod_eq_iff)
  have h7: "TestCluster_Instance ?cl1 0 = Inr 0"
    by (simp add: demo_grown_def demo_run model_defs)
  have h8: "TestInstance_APIClient 0 (snd ?new) = Inr (Some (Client ''http:0''))"
    by (simp add: demo_grown_def demo_run model_defs)
  have h9: "TestInstance_LANAddr 2 (snd ?new) = Inr ''lan:2''"
    by (simp add: demo_grown_def demo_run model_defs)
  have h10: "AgentJoin ?e (trace (snd ?new)) (Client ''http:0'') ''lan:2'' False
               = Some (External ''join refused'')"
    by (simp add: demo_env_def)
  from Grow_join_failure [OF h1 h2 h3 h4 h5 h6 h7 h8 h9 h10]
  obtain off w' where
    "TestCluster_Grow ?e 3 DefaultClusterServerConfigCallback ?cl ?w
       = Inr (Some (GrowJoinFailed (cl_name ?cl) off (External ''join refused'')), ?cl1, w')"
    and "unat off = TestCluster_Size ?cl + unat (1 :: uint8)"
    and "TestCluster_Size ?cl1 = TestCluster_Size ?cl + unat (1 :: uint8)"
    and "TestInstance_Stopped 2 w' = Inr True" and "2 \<notin> set (instances ?cl1)"
    by blast
  moreover from this(2) s have "unat off = unat (2 :: uint8)"
    by simp
  then have "off = 2"
    by (simp only: word_unat_eq_iff)
  ultimately have
    "(\<exists>w'. TestCluster_Grow ?e 3 DefaultClusterServerConfigCallback ?cl ?w
          = Inr (Some (GrowJoinFailed ''c'' 2 (External ''join refused'')), ?cl1, w') \<and>
        TestInstance_Stopped 2 w' = Inr True) \<and>
     TestCluster_Size ?cl1 = 2 \<and> 2 \<notin> set (instances ?cl1)"
    using s by auto
  with h1 h2 h3 h4 h5 new h10 show ?thesis by simp
qed

section \<open>NewTestCluster\<close>

text \<open>
  C6. \<^verbatim>\<open>NewTestCluster(name, 0, cb)\<close> returns the error "size must be at least 1" and
  leaves the store as it was (no call is made). When \<^verbatim>\<open>NewTestCluster(name, k, cb)\<close>
  returns a cluster, \<open>k \<ge> 1\<close> and the cluster has \<open>k\<close> members and is not stopped; its
  member 0 is the instance created first, named \<open>name-0\<close>, running the server that the
  first call of the run started, and that call was given the callback (the default one
  when \<open>cb\<close> is nil) applied to \<open>name\<close> and index 0.
\<close>

theorem NewTestCluster_size_and_bootstrap:
  "NewTestCluster e nm 0 cb w = Inr (Inl SizeAtLeast1, w) \<and>
   (NewTestCluster e nm k cb w = Inr (Inr cl, w') \<longrightarrow>
      1 \<le> unat k \<and> TestCluster_Size cl = unat k \<and> \<not> TestCluster_Stopped cl \<and>
      cl_name cl = nm \<and>
      TestCluster_Instance cl 0 = Inr (length (heap w)) \<and>
      name (heap w' ! length (heap w)) = nm @ ''-0'' \<and>
      (\<exists>srv tr.
         NewTestServerConfig e (trace w)
           ((case cb of None \<Rightarrow> DefaultClusterServerConfigCallback | Some f \<Rightarrow> f) nm 0) = Inr srv \<and>
         server (heap w' ! length (heap w)) = Some srv \<and>
         trace w' = trace w @
           CallNewTestServerConfig
             ((case cb of None \<Rightarrow> DefaultClusterServerConfigCallback | Some f \<Rightarrow> f) nm 0) # tr))"
proof -
  have zero: "NewTestCluster e nm 0 cb w = Inr (Inl SizeAtLeast1, w)"
    by (simp add: NewTestCluster_def)
  let ?cb = "case cb of None \<Rightarrow> DefaultClusterServerConfigCallback | Some f \<Rightarrow> f"
  let ?goal = "1 \<le> unat k \<and> TestCluster_Size cl = unat k \<and> \<not> TestCluster_Stopped cl \<and>
      cl_name cl = nm \<and>
      TestCluster_Instance cl 0 = Inr (length (heap w)) \<and>
      name (heap w' ! length (heap w)) = nm @ ''-0'' \<and>
      (\<exists>srv tr.
         NewTestServerConfig e (trace w) (?cb nm 0) = Inr srv \<and>
         server (heap w' ! length (heap w)) = Some srv \<and>
         trace w' = trace w @ CallNewTestServerConfig (?cb nm 0) # tr)"
  have ?goal if ok: "NewTestCluster e nm k cb w = Inr (Inr cl, w')"
  proof -
    have k0: "k \<noteq> 0"
      using ok by (auto simp: NewTestCluster_def)
    then have k1: "1 \<le> unat k"
      by (simp add: Suc_le_eq unat_gt_0)
    have nm0: "Sprintf_s_d nm 0 = nm @ ''-0''"
      by (simp add: Sprintf_s_d_def)
    obtain r w1 where first: "NewTestInstance e (Sprintf_s_d nm 0) (?cb nm 0) w = (r, w1)"
      by (cases "NewTestInstance e (Sprintf_s_d nm 0) (?cb nm 0) w")
    with ok k0 obtain i0 where r: "r = Inr i0"
      by (cases r) (auto simp: NewTestCluster_def)
    from NewTestInstance_Inr [OF first [unfolded r]]
    obtain srv c where i0: "i0 = length (heap w)"
      and srv: "NewTestServerConfig e (trace w) (?cb nm 0) = Inr srv"
      and hp: "heap w1 = heap w @ [\<lparr>name = Sprintf_s_d nm 0, server = Some srv, client = Some c\<rparr>]"
      and tr: "trace w1 = trace w @ [CallNewTestServerConfig (?cb nm 0), CallNewClient (HTTPAddr srv)]"
      by blast
    let ?cl0 = "\<lparr>cl_name = nm, cl_size = k, instances = [i0], stopped = False\<rparr>"
    show ?thesis
    proof (cases "k = 1")
      case True
      with ok first r have "cl = ?cl0" "w' = w1"
        by (simp_all add: NewTestCluster_def)
      with True i0 hp tr srv nm0 show ?thesis
        by (simp add: TestCluster_Size_def TestCluster_Stopped_def TestCluster_Instance_def)
    next
      case False
      with ok k0 first r
      have grow: "TestCluster_Grow e (k - 1) ?cb ?cl0 w1 = Inr (None, cl, w')"
        by (auto simp: NewTestCluster_def Let_def split: sum.splits option.splits)
      have km: "unat (k - 1) = unat k - 1"
        using k0 by (simp add: unat_minus_one)
      have "unat k < 256"
        using unsigned_less [of k, where 'a = nat] by simp
      with km k1 have "\<not> 255 < Suc (unat (k - 1))" by simp
      with grow have run: "grow_loop e ?cb 1 (k - 1) 0 ?cl0 w1 = Inr (None, cl, w')"
        by (simp add: TestCluster_Grow_def)
      from grow_loop_success [OF run] km k1
      have len: "length (instances cl) = unat k" by simp
      from grow_loop_frame [OF run]
      obtain tr' where fr: "cl_name cl = nm" "stopped cl = False"
        "take (length (heap w1)) (heap w') = heap w1" "take 1 (instances cl) = [i0]"
        "trace w' = trace w1 @ tr'"
        by auto
      from fr(4) len k1 have m0: "instances cl ! 0 = i0"
        by (metis nth_take zero_less_one nth_Cons_0)
      have "heap w' ! i0 = take (length (heap w1)) (heap w') ! i0"
        using hp i0 by simp
      with fr(3) hp i0
      have obj: "heap w' ! i0 = \<lparr>name = Sprintf_s_d nm 0, server = Some srv, client = Some c\<rparr>"
        by simp
      from k1 len fr m0 obj i0 srv tr nm0 show ?thesis
        by (simp add: TestCluster_Size_def TestCluster_Stopped_def TestCluster_Instance_def)
    qed
  qed
  with zero show ?thesis by blast
qed

text \<open>Three nodes with the default callback, from the empty store.\<close>

theorem NewTestCluster_size_and_bootstrap_witness:
  "NewTestCluster (demo_env [] []) ''c'' 3 None empty_world
     = Inr (Inr (demo_cluster [0, 1, 2]), demo_world [0, 1, 2]) \<and>
   TestCluster_Size (demo_cluster [0, 1, 2]) = 3 \<and>
   TestCluster_Instance (demo_cluster [0, 1, 2]) 0 = Inr 0 \<and>
   name (heap (demo_world [0, 1, 2]) ! 0) = ''c-0'' \<and>
   (\<exists>tr. trace (demo_world [0, 1, 2])
       = CallNewTestServerConfig (DefaultClusterServerConfigCallback ''c'' 0) # tr)"
proof -
  have h: "NewTestCluster (demo_env [] []) ''c'' 3 None empty_world
     = Inr (Inr (demo_cluster [0, 1, 2]), demo_world [0, 1, 2])"
    by (simp add: demo_run model_defs)
  have e: "length (heap empty_world) = 0" "trace empty_world = []"
    by (simp_all add: demo_run)
  from NewTestCluster_size_and_bootstrap [of "demo_env [] []" "''c''" None empty_world 3
      "demo_cluster [0, 1, 2]" "demo_world [0, 1, 2]"] h e
  show ?thesis by auto
qed

section \<open>AgentMan.Stop\<close>






lemma Stopped_cheap_update [simp]:
  "TestInstance_Stopped ti (w\<lparr>cheap := x\<rparr>) = TestInstance_Stopped ti w"
  by (simp add: TestInstance_Stopped_def)











section \<open>What Stop and Shrink do keep\<close>

text \<open>
  \<^verbatim>\<open>Stop()\<close> on a cluster that has a member and no nil member: it returns, the cluster
  is stopped afterwards, each member is stopped unless the cluster was marked stopped
  before, and a second \<^verbatim>\<open>Stop()\<close> returns nil and changes nothing.
\<close>

lemma TestCluster_Stop_nonempty:
  assumes "members_valid cl w" and "instances cl \<noteq> []"
  shows "\<exists>r cl' w'. TestCluster_Stop e cl w = Inr (r, cl', w') \<and> TestCluster_Stopped cl' \<and>
           instances cl' = instances cl \<and>
           (\<not> TestCluster_Stopped cl \<longrightarrow>
              list_all (\<lambda>ti. TestInstance_Stopped ti w' = Inr True) (instances cl)) \<and>
           TestCluster_Stop e cl' w' = Inr (None, cl', w')"
proof (cases "stopped cl")
  case True
  then show ?thesis by (simp add: TestCluster_Stop_def TestCluster_Stopped_def)
next
  case False
  from TestCluster_stop_nonempty [OF assms, of e]
  obtain r w' where "TestCluster_stop e cl w = Inr (r, cl\<lparr>stopped := True\<rparr>, w')"
    and "list_all (\<lambda>ti. TestInstance_Stopped ti w' = Inr True) (instances cl)"
    by blast
  with False show ?thesis
    by (intro exI [of _ r] exI [of _ "cl\<lparr>stopped := True\<rparr>"] exI [of _ w'])
       (simp add: TestCluster_Stop_def TestCluster_Stopped_def)
qed

text \<open>The loop of \<^verbatim>\<open>Shrink\<close> on members that are not nil, started inside the slice.\<close>

lemma shrink_loop_valid:
  assumes "\<forall>j<length xs. xs ! j < length (heap w)" and "unat i < length xs \<or> i \<le> diff"
  shows "\<exists>err' w'. shrink_loop e xs diff i err w = Inr (err', w') \<and> only_stops w w'"
  using assms
proof (induction "unat i" arbitrary: i err w rule: less_induct)
  case less
  show ?case
  proof (cases "diff < i")
    case False
    then show ?thesis
      by (subst shrink_loop.simps) (simp add: only_stops_refl)
  next
    case True
    with less.prems(2) have inside: "unat i < length xs" by auto
    with less.prems(1) have "xs ! unat i < length (heap w)" by simp
    from TestInstance_Stop_valid [OF this, of e]
    obtain r w1 where s1: "TestInstance_Stop e (xs ! unat i) w = Inr (r, w1)"
      and o1: "only_stops w w1"
      by blast
    from True have dec: "unat (i - 1) < unat i"
      by unat_arith
    from less.prems(1) o1 have v1: "\<forall>j<length xs. xs ! j < length (heap w1)"
      by (simp add: only_stops_def)
    from dec inside have "unat (i - 1) < length xs \<or> i - 1 \<le> diff" by simp
    from less.hyps [OF dec v1 this, of "MultiErr_Add err r"]
    obtain err' w' where s2: "shrink_loop e xs diff (i - 1) (MultiErr_Add err r) w1 = Inr (err', w')"
      and o2: "only_stops w1 w'"
      by blast
    from True inside s1 s2 only_stops_trans [OF o1 o2] show ?thesis
      by (subst shrink_loop.simps) simp
  qed
qed

text \<open>
  \<^verbatim>\<open>Shrink(n)\<close> with \<open>n\<close> at most the size, on at least one and at most 255 members,
  none of them nil: it returns and cuts the last \<open>n\<close> members off, whatever the stops
  returned.
\<close>

lemma TestCluster_Shrink_truncates:
  assumes "members_valid cl w" and "unat n \<le> length (instances cl)"
    and "length (instances cl) \<le> 255" and "instances cl \<noteq> []"
  shows "\<exists>r w'. TestCluster_Shrink e n cl w
             = Inr (r, cl\<lparr>instances := take (length (instances cl) - unat n) (instances cl)\<rparr>, w') \<and>
           only_stops w w'"
proof -
  let ?l = "length (instances cl)"
  from assms(3) have ul: "unat (word_of_nat ?l :: uint8) = ?l"
    by (simp add: unat_of_nat)
  with assms(2) have le: "n \<le> word_of_nat ?l"
    by (simp add: word_le_nat_alt)
  then have d: "unat (word_of_nat ?l - n) = ?l - unat n"
    using ul by (simp add: unat_sub)
  from assms(4) have "0 < ?l" by simp
  with ul have "(word_of_nat ?l :: uint8) \<noteq> 0"
    by (metis unat_0 less_numeral_extra(3))
  then have "unat (word_of_nat ?l - 1 :: uint8) = ?l - 1"
    using ul by (simp add: unat_minus_one)
  with \<open>0 < ?l\<close> have start: "unat (word_of_nat ?l - 1 :: uint8) < ?l" by simp
  from assms(1) have "\<forall>j<?l. instances cl ! j < length (heap w)"
    by (simp add: members_valid_def list_all_length)
  from shrink_loop_valid [OF this, of "word_of_nat ?l - 1" "word_of_nat ?l - n" e NewMultiErr] start
  obtain err' w' where
    "shrink_loop e (instances cl) (word_of_nat ?l - n) (word_of_nat ?l - 1) NewMultiErr w = Inr (err', w')"
    and "only_stops w w'"
    by blast
  with le d show ?thesis
    by (simp add: TestCluster_Shrink_def Let_def not_less [symmetric])
qed

end
